theory Spec2Isabelle
  imports Main "HOL-Library.Word"
begin

unbundle bit_operations_syntax

section \<open>Data model\<close>

text \<open>
  A Go \<^verbatim>\<open>[]byte\<close> is a list of 8-bit words, a Go \<^verbatim>\<open>string\<close> a list of
  (8-bit) characters. The conversions \<^verbatim>\<open>string(b)\<close> and \<^verbatim>\<open>[]byte(s)\<close> keep the bytes.
\<close>

type_synonym byte = "8 word"
type_synonym bytes = "byte list"

definition string_of_bytes :: "bytes \<Rightarrow> string" where
  "string_of_bytes bs = map (\<lambda>b. char_of (unat b)) bs"

definition bytes_of_string :: "string \<Rightarrow> bytes" where
  "bytes_of_string s = map (\<lambda>c. of_nat (of_char c)) s"

text \<open>
  Errors are values. \<open>ErrIncorrectIdentity\<close> is the sentinel \<^verbatim>\<open>age.ErrIncorrectIdentity\<close>;
  \<open>ErrorString\<close> is \<^verbatim>\<open>errors.New(msg)\<close> or \<^verbatim>\<open>fmt.Errorf(msg)\<close> without a wrapped error;
  \<open>ErrorWrap msg err\<close> is \<^verbatim>\<open>fmt.Errorf(msg + ": %w", err)\<close>.
  A run-time panic is not an error value: it ends the process, and is kept apart.
\<close>

datatype error =
    ErrIncorrectIdentity
  | ErrorString string
  | ErrorWrap string error

datatype panic = SliceBoundsOutOfRange int nat

text \<open>\<^verbatim>\<open>age.Stanza\<close>\<close>

record stanza =
  Type :: string
  Args :: "string list"
  Body :: bytes

text \<open>\<^verbatim>\<open>Bip39Identity\<close> and \<^verbatim>\<open>Bip39Recipient\<close>: both hold the 32-byte public key only.
  (The \<^verbatim>\<open>plugin\<close> field of the identity is the prompt channel; the answer of the
  prompt is an argument of \<open>Unwrap\<close> below.)\<close>

record Bip39Identity =
  publicKey :: bytes

record Bip39Recipient =
  recipient_publicKey :: bytes

section \<open>The libraries the program calls\<close>

text \<open>
  The program is glue around library calls (SHA-512, X25519, HKDF, ChaCha20-Poly1305,
  base64, hex, BIP39, the kernel keyring). None of them is code of this program; each
  is a field of the record \<open>lib\<close>, and every function of the program takes the record
  as its first argument. \<open>'k\<close> is the state of the kernel's user keyring.

  \<^item> \<open>sha512_Sum512\<close>: \<^verbatim>\<open>sha512.Sum512\<close>, which returns a \<^verbatim>\<open>[64]byte\<close>.
  \<^item> \<open>curve25519_X25519 scalar point\<close>: \<^verbatim>\<open>curve25519.X25519\<close>, an error or 32 bytes.
  \<^item> \<open>ecdh_PublicKey priv\<close>: \<^verbatim>\<open>(*ecdh.PrivateKey).PublicKey().Bytes()\<close>.
  \<^item> \<open>hkdf_ReadFull secret salt info n\<close>: \<^verbatim>\<open>hkdf.New(sha256.New, secret, salt, info)\<close>
    followed by \<^verbatim>\<open>io.ReadFull\<close> into a buffer of \<open>n\<close> bytes.
  \<^item> \<open>chacha20poly1305_New key\<close>, \<open>aead_Seal aead nonce plaintext ad\<close>,
    \<open>aead_Open aead nonce ciphertext ad\<close>: the AEAD.
  \<^item> \<open>b64_EncodeToString\<close>, \<open>b64_DecodeString\<close>: \<^verbatim>\<open>base64.RawStdEncoding.Strict()\<close>.
  \<^item> \<open>bip39_EntropyFromMnemonic\<close>, \<open>bip39_IsMnemonicValid\<close>: go-bip39.
  \<^item> \<open>strings_TrimSpace\<close>, \<open>time_ParseDuration\<close> (a \<^verbatim>\<open>time.Duration\<close> is a number of
    nanoseconds), \<open>duration_Seconds_int d\<close> for \<^verbatim>\<open>int(d.Seconds())\<close> (a floating-point
    computation), \<open>fmt_Sprintf_x\<close> for \<^verbatim>\<open>fmt.Sprintf("%x", b)\<close>, \<open>hex_DecodeString\<close>.
  \<^item> \<open>unix_KeyctlSearch k name\<close>: \<^verbatim>\<open>unix.KeyctlSearch(KEY_SPEC_USER_KEYRING, "user", name, 0)\<close>,
    an error or a key id.
  \<^item> \<open>unix_KeyctlRead k id buflen\<close>: \<^verbatim>\<open>unix.KeyctlBuffer(KEYCTL_READ, id, buf, 0)\<close> with
    \<open>buflen = len(buf)\<close>: an error, or the integer the system call returns together
    with the bytes it wrote at the start of \<open>buf\<close>.
  \<^item> \<open>unix_AddKey k name payload\<close>: \<^verbatim>\<open>unix.AddKey("user", name, payload, KEY_SPEC_USER_KEYRING)\<close>,
    an error or a key id, and the keyring afterwards.
  \<^item> \<open>unix_KeyctlSetTimeout k id seconds\<close>: \<^verbatim>\<open>unix.KeyctlInt(KEYCTL_SET_TIMEOUT, id, seconds, 0, 0)\<close>,
    whose results the program drops: the keyring afterwards.
  \<^item> \<open>ecdh_NewPublicKey\<close>, \<open>plugin_EncodeX25519Recipient\<close>, \<open>plugin_EncodeIdentity\<close>,
    and the two lipgloss styles \<open>box_Render\<close> and \<open>label_Render\<close>: used by key generation
    to print the identity.
\<close>

record 'k lib =
  sha512_Sum512 :: "bytes \<Rightarrow> bytes"
  curve25519_X25519 :: "bytes \<Rightarrow> bytes \<Rightarrow> error + bytes"
  ecdh_PublicKey :: "bytes \<Rightarrow> bytes"
  hkdf_ReadFull :: "bytes \<Rightarrow> bytes \<Rightarrow> bytes \<Rightarrow> nat \<Rightarrow> error + bytes"
  chacha20poly1305_New :: "bytes \<Rightarrow> error + bytes"
  aead_Seal :: "bytes \<Rightarrow> bytes \<Rightarrow> bytes \<Rightarrow> bytes \<Rightarrow> bytes"
  aead_Open :: "bytes \<Rightarrow> bytes \<Rightarrow> bytes \<Rightarrow> bytes \<Rightarrow> error + bytes"
  b64_EncodeToString :: "bytes \<Rightarrow> string"
  b64_DecodeString :: "string \<Rightarrow> error + bytes"
  bip39_EntropyFromMnemonic :: "string \<Rightarrow> error + bytes"
  bip39_IsMnemonicValid :: "string \<Rightarrow> bool"
  strings_TrimSpace :: "string \<Rightarrow> string"
  time_ParseDuration :: "string \<Rightarrow> error + int"
  duration_Seconds_int :: "int \<Rightarrow> int"
  fmt_Sprintf_x :: "bytes \<Rightarrow> string"
  hex_DecodeString :: "string \<Rightarrow> error + bytes"
  unix_KeyctlSearch :: "'k \<Rightarrow> string \<Rightarrow> error + int"
  unix_KeyctlRead :: "'k \<Rightarrow> int \<Rightarrow> nat \<Rightarrow> error + (int \<times> bytes)"
  unix_AddKey :: "'k \<Rightarrow> string \<Rightarrow> bytes \<Rightarrow> (error + int) \<times> 'k"
  unix_KeyctlSetTimeout :: "'k \<Rightarrow> int \<Rightarrow> int \<Rightarrow> 'k"
  ecdh_NewPublicKey :: "bytes \<Rightarrow> error + bytes"
  plugin_EncodeX25519Recipient :: "bytes \<Rightarrow> error + string"
  plugin_EncodeIdentity :: "string \<Rightarrow> bytes \<Rightarrow> string"
  box_Render :: "string \<Rightarrow> string"
  label_Render :: "string \<Rightarrow> string"

text \<open>Constants of the libraries and of the program.\<close>

definition x25519Label :: string where
  "x25519Label = ''age-encryption.org/v1/X25519''"

definition Basepoint :: bytes where
  "Basepoint = 9 # replicate 31 0"

definition KeySize :: nat where
  "KeySize = 32"

definition NonceSize :: nat where
  "NonceSize = 12"

definition Minute :: int where
  "Minute = 60 * 1000000000"

section \<open>Go's slices\<close>

text \<open>\<^verbatim>\<open>make([]byte, n)\<close> is \<open>n\<close> zero bytes.\<close>

definition make_bytes :: "nat \<Rightarrow> bytes" where
  "make_bytes n = replicate n 0"

text \<open>\<^verbatim>\<open>copy(dst, src)\<close> overwrites the first \<open>min (len dst) (len src)\<close> bytes of \<open>dst\<close>.\<close>

definition copy_bytes :: "bytes \<Rightarrow> bytes \<Rightarrow> bytes" where
  "copy_bytes dst src = take (length dst) src @ drop (length src) dst"

text \<open>\<^verbatim>\<open>buf[:n]\<close> for a slice whose capacity is its length: a panic when \<open>n\<close> is out of
  range.\<close>

definition slice_to :: "bytes \<Rightarrow> int \<Rightarrow> panic + bytes" where
  "slice_to buf n =
     (if n < 0 \<or> int (length buf) < n then Inl (SliceBoundsOutOfRange n (length buf))
      else Inr (take (nat n) buf))"

section \<open>Key derivation\<close>

text \<open>The three clamping assignments of \<^verbatim>\<open>deriveX25519FromMnemonic\<close>, in the source's order.\<close>

definition clamp :: "bytes \<Rightarrow> bytes" where
  "clamp x0 =
     (let x1 = x0[0 := (x0 ! 0) AND 248];
          x2 = x1[31 := (x1 ! 31) AND 127];
          x3 = x2[31 := (x2 ! 31) OR 64]
      in x3)"

definition deriveX25519FromMnemonic :: "'k lib \<Rightarrow> string \<Rightarrow> error + (bytes \<times> bytes)" where
  "deriveX25519FromMnemonic L mnemonic =
     (case bip39_EntropyFromMnemonic L mnemonic of
        Inl err \<Rightarrow> Inl (ErrorWrap ''failed to extract entropy'' err)
      | Inr entropy \<Rightarrow>
          (let h = sha512_Sum512 L entropy;
               x25519Private = clamp (copy_bytes (make_bytes 32) (take 32 h))
           in case curve25519_X25519 L x25519Private Basepoint of
                Inl err \<Rightarrow> Inl (ErrorWrap ''X25519 scalar multiplication failed'' err)
              | Inr pubBytes \<Rightarrow> Inr (x25519Private, pubBytes)))"

section \<open>Key cache\<close>

text \<open>
  What the program can observe of its surroundings, and what it changes: the value of
  the environment variable \<^verbatim>\<open>AGE_PLUGIN_BIP39_CACHE\<close> as \<^verbatim>\<open>os.Getenv\<close> returns it (the empty
  string when unset), the kernel's user keyring, and a ghost trace of the calls that
  \<open>Unwrap\<close> has made so far, in order, kept to state what was and was not called.
\<close>

datatype event =
    Call_getCachedKey string
  | Call_RequestValue string
  | Call_deriveX25519FromMnemonic string
  | Call_cacheKey string bytes
  | Call_unwrapX25519 stanza

record 'k world =
  cache_env :: string
  keyring :: 'k
  trace :: "event list"

definition cacheTTL :: "'k lib \<Rightarrow> 'k world \<Rightarrow> int" where
  "cacheTTL L w =
     (let v = cache_env w in
      if v = '''' then 10 * Minute
      else if v = ''0'' then 0
      else case time_ParseDuration L v of
             Inl err \<Rightarrow> 10 * Minute
           | Inr d \<Rightarrow> d)"

text \<open>\<open>None\<close> is the \<^verbatim>\<open>nil\<close> slice. The slice expression \<^verbatim>\<open>buf[:n]\<close> can panic.\<close>

definition getCachedKey :: "'k lib \<Rightarrow> 'k world \<Rightarrow> string \<Rightarrow> panic + bytes option" where
  "getCachedKey L w name =
     (if cacheTTL L w = 0 then Inr None
      else case unix_KeyctlSearch L (keyring w) name of
             Inl err \<Rightarrow> Inr None
           | Inr key_id \<Rightarrow>
               (let buf = make_bytes 256 in
                case unix_KeyctlRead L (keyring w) key_id (length buf) of
                  Inl err \<Rightarrow> Inr None
                | Inr (n, written) \<Rightarrow>
                    if n \<le> 0 then Inr None
                    else
                      (case slice_to (copy_bytes buf written) n of
                         Inl p \<Rightarrow> Inl p
                       | Inr s \<Rightarrow>
                           (case hex_DecodeString L (string_of_bytes s) of
                              Inl err \<Rightarrow> Inr None
                            | Inr key \<Rightarrow>
                                if length key \<noteq> 32 then Inr None else Inr (Some key)))))"

definition cacheKey :: "'k lib \<Rightarrow> 'k world \<Rightarrow> string \<Rightarrow> bytes \<Rightarrow> 'k world" where
  "cacheKey L w name key =
     (let ttl = cacheTTL L w in
      if ttl = 0 then w
      else
        (let payload = fmt_Sprintf_x L key in
         case unix_AddKey L (keyring w) name (bytes_of_string payload) of
           (Inl err, k') \<Rightarrow> w\<lparr>keyring := k'\<rparr>
         | (Inr key_id, k') \<Rightarrow>
             w\<lparr>keyring := unix_KeyctlSetTimeout L k' key_id (duration_Seconds_int L ttl)\<rparr>))"

section \<open>Stanza codec\<close>

definition aeadEncrypt :: "'k lib \<Rightarrow> bytes \<Rightarrow> bytes \<Rightarrow> error + bytes" where
  "aeadEncrypt L key plaintext =
     (case chacha20poly1305_New L key of
        Inl err \<Rightarrow> Inl err
      | Inr aead \<Rightarrow>
          (let nonce = make_bytes NonceSize
           in Inr (aead_Seal L aead nonce plaintext [])))"

definition aeadDecrypt :: "'k lib \<Rightarrow> bytes \<Rightarrow> bytes \<Rightarrow> error + bytes" where
  "aeadDecrypt L key ciphertext =
     (case chacha20poly1305_New L key of
        Inl err \<Rightarrow> Inl err
      | Inr aead \<Rightarrow>
          (let nonce = make_bytes NonceSize
           in aead_Open L aead nonce ciphertext []))"

definition unwrapX25519 :: "'k lib \<Rightarrow> bytes \<Rightarrow> bytes \<Rightarrow> stanza \<Rightarrow> error + bytes" where
  "unwrapX25519 L secretKey ourPublicKey stanza =
     (if length (Args stanza) \<noteq> 1 then Inl (ErrorString ''invalid X25519 stanza'')
      else case b64_DecodeString L (Args stanza ! 0) of
             Inl err \<Rightarrow> Inl (ErrorWrap ''failed to decode ephemeral public key'' err)
           | Inr ephemeralPub \<Rightarrow>
               if length ephemeralPub \<noteq> 32
               then Inl (ErrorString ''invalid ephemeral public key length'')
               else
                 (case curve25519_X25519 L secretKey ephemeralPub of
                    Inl err \<Rightarrow> Inl (ErrorWrap ''X25519 failed'' err)
                  | Inr sharedSecret \<Rightarrow>
                      (let salt = ephemeralPub @ ourPublicKey in
                       case hkdf_ReadFull L sharedSecret salt (bytes_of_string x25519Label) KeySize of
                         Inl err \<Rightarrow> Inl err
                       | Inr wrappingKey \<Rightarrow> aeadDecrypt L wrappingKey (Body stanza))))"

text \<open>
  \<open>generated\<close> is the outcome of \<^verbatim>\<open>ecdh.X25519().GenerateKey(rand.Reader)\<close>: an error, or
  the bytes of the fresh ephemeral private key.
\<close>

definition wrapX25519 :: "'k lib \<Rightarrow> error + bytes \<Rightarrow> bytes \<Rightarrow> bytes \<Rightarrow> error + stanza list" where
  "wrapX25519 L generated recipientPubKey fileKey =
     (case generated of
        Inl err \<Rightarrow> Inl err
      | Inr ephemeral \<Rightarrow>
          (let ephemeralPub = ecdh_PublicKey L ephemeral in
           case curve25519_X25519 L ephemeral recipientPubKey of
             Inl err \<Rightarrow> Inl err
           | Inr sharedSecret \<Rightarrow>
               (let salt = ephemeralPub @ recipientPubKey in
                case hkdf_ReadFull L sharedSecret salt (bytes_of_string x25519Label) KeySize of
                  Inl err \<Rightarrow> Inl err
                | Inr wrappingKey \<Rightarrow>
                    (case aeadEncrypt L wrappingKey fileKey of
                       Inl err \<Rightarrow> Inl err
                     | Inr wrappedKey \<Rightarrow>
                         Inr [\<lparr>Type = ''X25519'',
                               Args = [b64_EncodeToString L ephemeralPub],
                               Body = wrappedKey\<rparr>]))))"

definition Wrap :: "'k lib \<Rightarrow> Bip39Recipient \<Rightarrow> error + bytes \<Rightarrow> bytes \<Rightarrow> error + stanza list" where
  "Wrap L sr generated fileKey = wrapX25519 L generated (recipient_publicKey sr) fileKey"

section \<open>Identity\<close>

definition bytesEqual :: "bytes \<Rightarrow> bytes \<Rightarrow> bool" where
  "bytesEqual a b =
     (if length a \<noteq> length b then False
      else list_all (\<lambda>i. a ! i = b ! i) [0..<length a])"

definition record_call :: "event \<Rightarrow> 'k world \<Rightarrow> 'k world" where
  "record_call e w = w\<lparr>trace := trace w @ [e]\<rparr>"

text \<open>The second loop of \<^verbatim>\<open>Unwrap\<close> (the trial of the stanzas, in input order).\<close>

fun Unwrap_stanzas ::
  "'k lib \<Rightarrow> bytes \<Rightarrow> bytes \<Rightarrow> stanza list \<Rightarrow> 'k world \<Rightarrow> (error + bytes) \<times> 'k world" where
  "Unwrap_stanzas L privKey pub [] w = (Inl ErrIncorrectIdentity, w)"
| "Unwrap_stanzas L privKey pub (stanza # rest) w =
     (if Type stanza \<noteq> ''X25519'' then Unwrap_stanzas L privKey pub rest w
      else case unwrapX25519 L privKey pub stanza of
             Inl err \<Rightarrow> Unwrap_stanzas L privKey pub rest (record_call (Call_unwrapX25519 stanza) w)
           | Inr fileKey \<Rightarrow> (Inr fileKey, record_call (Call_unwrapX25519 stanza) w))"

text \<open>
  \<^verbatim>\<open>Bip39Identity.Unwrap\<close>. \<open>answer\<close> is what \<^verbatim>\<open>RequestValue\<close> returns if it is called. The
  result is a panic, or the pair \<^verbatim>\<open>([]byte, error)\<close> as a sum; with it, the world
  afterwards.
\<close>

definition Unwrap ::
  "'k lib \<Rightarrow> Bip39Identity \<Rightarrow> stanza list \<Rightarrow> error + string \<Rightarrow> 'k world
     \<Rightarrow> (panic + (error + bytes)) \<times> 'k world" where
  "Unwrap L si stanzas answer w =
     (let hasX25519 = list_ex (\<lambda>s. Type s = ''X25519'') stanzas in
      if \<not> hasX25519 then (Inr (Inl ErrIncorrectIdentity), w)
      else
        (let cacheKeyName = ''age-plugin-bip39:'' @ fmt_Sprintf_x L (publicKey si);
             w1 = record_call (Call_getCachedKey cacheKeyName) w
         in case getCachedKey L w1 cacheKeyName of
              Inl p \<Rightarrow> (Inl p, w1)
            | Inr (Some privKey) \<Rightarrow>
                (case Unwrap_stanzas L privKey (publicKey si) stanzas w1 of
                   (r, w') \<Rightarrow> (Inr r, w'))
            | Inr None \<Rightarrow>
                (let w2 = record_call (Call_RequestValue ''Enter your BIP39 seed phrase'') w1 in
                 case answer of
                   Inl err \<Rightarrow> (Inr (Inl (ErrorWrap ''failed to request seed phrase'' err)), w2)
                 | Inr entered \<Rightarrow>
                     (let mnemonic = strings_TrimSpace L entered in
                      if \<not> bip39_IsMnemonicValid L mnemonic
                      then (Inr (Inl (ErrorString ''invalid BIP39 mnemonic'')), w2)
                      else
                        (let w3 = record_call (Call_deriveX25519FromMnemonic mnemonic) w2 in
                         case deriveX25519FromMnemonic L mnemonic of
                           Inl err \<Rightarrow> (Inr (Inl (ErrorWrap ''key derivation failed'' err)), w3)
                         | Inr (derivedPriv, derivedPub) \<Rightarrow>
                             if \<not> bytesEqual derivedPub (publicKey si)
                             then (Inr (Inl (ErrorString ''seed phrase does not match this identity'')), w3)
                             else
                               (let w4 = cacheKey L (record_call (Call_cacheKey cacheKeyName derivedPriv) w3)
                                           cacheKeyName derivedPriv
                                in case Unwrap_stanzas L derivedPriv (publicKey si) stanzas w4 of
                                     (r, w') \<Rightarrow> (Inr r, w')))))))"

section \<open>Key generation from a phrase on standard input\<close>

text \<open>
  What \<^verbatim>\<open>outputIdentity\<close> prints: the text written to standard error when it is a
  terminal, and the three lines written to standard output (without their line
  ends). \<open>now\<close> is \<^verbatim>\<open>time.Now().UTC().Format(time.RFC3339)\<close>.
\<close>

record printed =
  to_stderr :: "string list"
  to_stdout :: "string list"

definition outputIdentity :: "'k lib \<Rightarrow> bool \<Rightarrow> string \<Rightarrow> string \<Rightarrow> error + printed" where
  "outputIdentity L stderr_is_terminal now mnemonic =
     (case deriveX25519FromMnemonic L mnemonic of
        Inl err \<Rightarrow> Inl (ErrorWrap ''key derivation failed'' err)
      | Inr (privKey, pubKey) \<Rightarrow>
          (case ecdh_NewPublicKey L pubKey of
             Inl err \<Rightarrow> Inl (ErrorWrap ''failed to create ECDH public key'' err)
           | Inr ecdhPub \<Rightarrow>
               (case plugin_EncodeX25519Recipient L ecdhPub of
                  Inl err \<Rightarrow> Inl (ErrorWrap ''failed to encode recipient'' err)
                | Inr recipient \<Rightarrow>
                    (let identity = plugin_EncodeIdentity L ''bip39'' pubKey in
                     if identity = '''' then Inl (ErrorString ''failed to encode identity'')
                     else Inr \<lparr>to_stderr =
                                 (if stderr_is_terminal
                                  then [[CHR 0x0A]
                                        @ box_Render L (label_Render L ''Public Key'' @ ''  '' @ recipient)
                                        @ [CHR 0x0A, CHR 0x0A]]
                                  else []),
                               to_stdout =
                                 [''# created: '' @ now,
                                  ''# public key: '' @ recipient,
                                  identity]\<rparr>))))"

text \<open>\<open>stdin\<close> is the outcome of \<^verbatim>\<open>io.ReadAll(os.Stdin)\<close>.\<close>

definition runKeygenNonInteractive ::
  "'k lib \<Rightarrow> bool \<Rightarrow> string \<Rightarrow> error + bytes \<Rightarrow> error + printed" where
  "runKeygenNonInteractive L stderr_is_terminal now stdin =
     (case stdin of
        Inl err \<Rightarrow> Inl (ErrorWrap ''failed to read seed phrase'' err)
      | Inr b \<Rightarrow>
          (let mnemonic = strings_TrimSpace L (string_of_bytes b) in
           if mnemonic = '''' then Inl (ErrorString ''no mnemonic provided on stdin'')
           else if \<not> bip39_IsMnemonicValid L mnemonic then Inl (ErrorString ''invalid BIP39 mnemonic'')
           else outputIdentity L stderr_is_terminal now mnemonic))"

section \<open>An executable instance of the libraries\<close>

text \<open>
  The theorems below hold for every \<open>lib\<close>. To run the program on concrete inputs, here
  is one instance, small enough to evaluate: hexadecimal text as Go prints and reads
  it, a keyring that answers as \<^verbatim>\<open>keyctl(2)\<close> describes, and stand-ins for the
  cryptographic primitives that keep their algebra (the two ways of computing a
  shared secret agree; opening what was sealed under the same key gives the plaintext
  back; opening under another key fails).
\<close>

subsection \<open>Hexadecimal text\<close>

definition hexdigits :: string where
  "hexdigits = ''0123456789abcdef''"

definition sim_Sprintf_x :: "bytes \<Rightarrow> string" where
  "sim_Sprintf_x bs =
     concat (map (\<lambda>b. [hexdigits ! (unat b div 16), hexdigits ! (unat b mod 16)]) bs)"

definition fromHexChar :: "char \<Rightarrow> nat option" where
  "fromHexChar c =
     (let n = (of_char c :: nat) in
      if 48 \<le> n \<and> n \<le> 57 then Some (n - 48)
      else if 97 \<le> n \<and> n \<le> 102 then Some (n - 97 + 10)
      else if 65 \<le> n \<and> n \<le> 70 then Some (n - 65 + 10)
      else None)"

fun sim_hex_DecodeString :: "string \<Rightarrow> error + bytes" where
  "sim_hex_DecodeString [] = Inr []"
| "sim_hex_DecodeString [c] =
     (case fromHexChar c of
        None \<Rightarrow> Inl (ErrorString ''encoding/hex: invalid byte'')
      | Some x \<Rightarrow> Inl (ErrorString ''encoding/hex: odd length hex string''))"
| "sim_hex_DecodeString (a # b # rest) =
     (case fromHexChar a of
        None \<Rightarrow> Inl (ErrorString ''encoding/hex: invalid byte'')
      | Some x \<Rightarrow>
          (case fromHexChar b of
             None \<Rightarrow> Inl (ErrorString ''encoding/hex: invalid byte'')
           | Some y \<Rightarrow>
               (case sim_hex_DecodeString rest of
                  Inl err \<Rightarrow> Inl err
                | Inr bs \<Rightarrow> Inr (of_nat (x * 16 + y) # bs))))"

subsection \<open>The user keyring\<close>

text \<open>
  A keyring is the list of its keys, each a description and a payload; the key at
  position \<open>i\<close> has the id \<open>i + 1\<close>. As \<^verbatim>\<open>keyctl(2)\<close> has it, \<^verbatim>\<open>KEYCTL_READ\<close> returns the
  size of the payload whatever the size of the buffer, and copies the payload only
  when it fits; \<^verbatim>\<open>add_key(2)\<close> updates the payload of a key with the same description.
\<close>

type_synonym sim_keyring = "(string \<times> bytes) list"

fun sim_search_from :: "sim_keyring \<Rightarrow> string \<Rightarrow> int \<Rightarrow> error + int" where
  "sim_search_from [] name i = Inl (ErrorString ''required key not available'')"
| "sim_search_from ((d, p) # rest) name i =
     (if d = name then Inr i else sim_search_from rest name (i + 1))"

definition sim_KeyctlSearch :: "sim_keyring \<Rightarrow> string \<Rightarrow> error + int" where
  "sim_KeyctlSearch k name = sim_search_from k name 1"

definition sim_KeyctlRead :: "sim_keyring \<Rightarrow> int \<Rightarrow> nat \<Rightarrow> error + (int \<times> bytes)" where
  "sim_KeyctlRead k key_id buflen =
     (if key_id < 1 \<or> int (length k) < key_id then Inl (ErrorString ''required key not available'')
      else
        (let payload = snd (k ! nat (key_id - 1))
         in Inr (int (length payload), if length payload \<le> buflen then payload else [])))"

definition sim_AddKey :: "sim_keyring \<Rightarrow> string \<Rightarrow> bytes \<Rightarrow> (error + int) \<times> sim_keyring" where
  "sim_AddKey k name payload =
     (case sim_KeyctlSearch k name of
        Inr key_id \<Rightarrow> (Inr key_id, k[nat (key_id - 1) := (name, payload)])
      | Inl err \<Rightarrow> (Inr (int (length k) + 1), k @ [(name, payload)]))"

definition sim_KeyctlSetTimeout :: "sim_keyring \<Rightarrow> int \<Rightarrow> int \<Rightarrow> sim_keyring" where
  "sim_KeyctlSetTimeout k key_id seconds = k"

subsection \<open>Stand-ins for the primitives\<close>

definition sim_Sum512 :: "bytes \<Rightarrow> bytes" where
  "sim_Sum512 m = take 64 (map (\<lambda>b. b + 201) (m @ m) @ replicate 64 255)"

definition sim_X25519 :: "bytes \<Rightarrow> bytes \<Rightarrow> error + bytes" where
  "sim_X25519 scalar point =
     (if length scalar \<noteq> 32 then Inl (ErrorString ''bad scalar length'')
      else if length point \<noteq> 32 then Inl (ErrorString ''bad point length'')
      else
        (let r = map2 (+) scalar point
         in if r = replicate 32 0 then Inl (ErrorString ''bad input point: low order point'')
            else Inr r))"

definition sim_PublicKey :: "bytes \<Rightarrow> bytes" where
  "sim_PublicKey priv = map2 (+) priv Basepoint"

definition sim_hkdf_ReadFull :: "bytes \<Rightarrow> bytes \<Rightarrow> bytes \<Rightarrow> nat \<Rightarrow> error + bytes" where
  "sim_hkdf_ReadFull secret salt info n =
     (if 255 * 32 < n then Inl (ErrorString ''hkdf: entropy limit reached'')
      else Inr (take n (map2 (+) secret salt @ info @ replicate n 0)))"

definition sim_New :: "bytes \<Rightarrow> error + bytes" where
  "sim_New key =
     (if length key \<noteq> KeySize then Inl (ErrorString ''chacha20poly1305: bad key length'')
      else Inr key)"

definition sim_Seal :: "bytes \<Rightarrow> bytes \<Rightarrow> bytes \<Rightarrow> bytes \<Rightarrow> bytes" where
  "sim_Seal aead nonce plaintext ad = map2 (+) plaintext (aead @ aead) @ take 16 aead"

definition sim_Open :: "bytes \<Rightarrow> bytes \<Rightarrow> bytes \<Rightarrow> bytes \<Rightarrow> error + bytes" where
  "sim_Open aead nonce ciphertext ad =
     (if length ciphertext < 16 then Inl (ErrorString ''chacha20poly1305: message authentication failed'')
      else
        (let n = length ciphertext - 16
         in if drop n ciphertext \<noteq> take 16 aead
            then Inl (ErrorString ''chacha20poly1305: message authentication failed'')
            else Inr (map2 (-) (take n ciphertext) (aead @ aead))))"

definition sim_EncodeToString :: "bytes \<Rightarrow> string" where
  "sim_EncodeToString bs = string_of_bytes bs"

definition sim_DecodeString :: "string \<Rightarrow> error + bytes" where
  "sim_DecodeString s =
     (if CHR ''='' \<in> set s then Inl (ErrorString ''illegal base64 data'')
      else Inr (bytes_of_string s))"

text \<open>A phrase is valid when it has 32 characters other than spaces; they are its
  entropy.\<close>

definition sim_EntropyFromMnemonic :: "string \<Rightarrow> error + bytes" where
  "sim_EntropyFromMnemonic m =
     (let cs = filter (\<lambda>c. c \<noteq> CHR '' '') m
      in if length cs = 32 then Inr (bytes_of_string cs)
         else Inl (ErrorString ''Invalid mnenomic''))"

definition sim_IsMnemonicValid :: "string \<Rightarrow> bool" where
  "sim_IsMnemonicValid m = (case sim_EntropyFromMnemonic m of Inl err \<Rightarrow> False | Inr e \<Rightarrow> True)"

definition asciiSpace :: "char \<Rightarrow> bool" where
  "asciiSpace c = (c \<in> set [CHR 0x09, CHR 0x0A, CHR 0x0B, CHR 0x0C, CHR 0x0D, CHR '' ''])"

definition sim_TrimSpace :: "string \<Rightarrow> string" where
  "sim_TrimSpace s = rev (dropWhile asciiSpace (rev (dropWhile asciiSpace s)))"

definition sim_ParseDuration :: "string \<Rightarrow> error + int" where
  "sim_ParseDuration s =
     (case map_of [(''0'', 0), (''0s'', 0), (''30s'', 30 * 1000000000), (''5m'', 5 * Minute),
                   (''1h'', 60 * Minute)] s of
        None \<Rightarrow> Inl (ErrorString ''time: invalid duration'')
      | Some d \<Rightarrow> Inr d)"

definition sim_Seconds_int :: "int \<Rightarrow> int" where
  "sim_Seconds_int d = d div 1000000000"

definition sim_NewPublicKey :: "bytes \<Rightarrow> error + bytes" where
  "sim_NewPublicKey key =
     (if length key \<noteq> 32 then Inl (ErrorString ''crypto/ecdh: invalid public key'') else Inr key)"

definition sim_lib :: "sim_keyring lib" where
  "sim_lib =
     \<lparr>sha512_Sum512 = sim_Sum512,
      curve25519_X25519 = sim_X25519,
      ecdh_PublicKey = sim_PublicKey,
      hkdf_ReadFull = sim_hkdf_ReadFull,
      chacha20poly1305_New = sim_New,
      aead_Seal = sim_Seal,
      aead_Open = sim_Open,
      b64_EncodeToString = sim_EncodeToString,
      b64_DecodeString = sim_DecodeString,
      bip39_EntropyFromMnemonic = sim_EntropyFromMnemonic,
      bip39_IsMnemonicValid = sim_IsMnemonicValid,
      strings_TrimSpace = sim_TrimSpace,
      time_ParseDuration = sim_ParseDuration,
      duration_Seconds_int = sim_Seconds_int,
      fmt_Sprintf_x = sim_Sprintf_x,
      hex_DecodeString = sim_hex_DecodeString,
      unix_KeyctlSearch = sim_KeyctlSearch,
      unix_KeyctlRead = sim_KeyctlRead,
      unix_AddKey = sim_AddKey,
      unix_KeyctlSetTimeout = sim_KeyctlSetTimeout,
      ecdh_NewPublicKey = sim_NewPublicKey,
      plugin_EncodeX25519Recipient = (\<lambda>key. Inr (''age1'' @ sim_Sprintf_x key)),
      plugin_EncodeIdentity = (\<lambda>name key. ''AGE-PLUGIN-'' @ name @ ''-'' @ sim_Sprintf_x key),
      box_Render = (\<lambda>s. ''| '' @ s @ '' |''),
      label_Render = (\<lambda>s. s)\<rparr>"

section \<open>Notions of the specification\<close>

text \<open>
  The private scalar in the specification's words: the first 32 bytes of the SHA-512
  hash \<open>h\<close>, byte 0 ANDed with 248, byte 31 ANDed with 127 and then ORed with 64.
\<close>

definition spec_private_scalar :: "bytes \<Rightarrow> bytes" where
  "spec_private_scalar h = (take 32 h)[0 := (h ! 0) AND 248, 31 := ((h ! 31) AND 127) OR 64]"

text \<open>
  A stanza decrypts under a key pair when \<open>Unwrap\<close> tries it (its type is X25519) and
  \<open>unwrapX25519\<close>, whose last step is the AEAD decryption, returns a file key.
\<close>

definition decrypts :: "'k lib \<Rightarrow> bytes \<Rightarrow> bytes \<Rightarrow> stanza \<Rightarrow> bool" where
  "decrypts L privKey pub s =
     (Type s = ''X25519'' \<and>
      (case unwrapX25519 L privKey pub s of Inl err \<Rightarrow> False | Inr fileKey \<Rightarrow> True))"

text \<open>
  A stanza is malformed when it has one argument that fails base64 decoding or decodes
  to a length other than 32 bytes.
\<close>

definition malformed_argument :: "'k lib \<Rightarrow> stanza \<Rightarrow> bool" where
  "malformed_argument L s =
     (length (Args s) = 1 \<and>
      (case b64_DecodeString L (Args s ! 0) of
         Inl err \<Rightarrow> True
       | Inr ephemeralPub \<Rightarrow> length ephemeralPub \<noteq> 32))"

text \<open>The error of \<open>Unwrap\<close> for a valid phrase of another identity.\<close>

definition MnemonicMismatch :: error where
  "MnemonicMismatch = ErrorString ''seed phrase does not match this identity''"

definition InvalidMnemonic :: error where
  "InvalidMnemonic = ErrorString ''invalid BIP39 mnemonic''"

text \<open>The name of the cache entry of an identity, as \<open>Unwrap\<close> builds it.\<close>

definition cacheKeyName_of :: "'k lib \<Rightarrow> Bip39Identity \<Rightarrow> string" where
  "cacheKeyName_of L si = ''age-plugin-bip39:'' @ fmt_Sprintf_x L (publicKey si)"

section \<open>Test vectors\<close>

definition tv_mnemonic :: string where
  "tv_mnemonic = ''abcdefghijklmnopqrstuvwxyzABCDEF''"

definition tv_mnemonic_spaced :: string where
  "tv_mnemonic_spaced = ''abcd efgh ijkl mnop qrst uvwx yzAB CDEF''"

definition tv_entropy :: bytes where
  "tv_entropy = [97, 98, 99, 100, 101, 102, 103, 104, 105, 106, 107, 108, 109, 110, 111, 112,
                 113, 114, 115, 116, 117, 118, 119, 120, 121, 122, 65, 66, 67, 68, 69, 70]"

definition tv_priv :: bytes where
  "tv_priv = [40, 43, 44, 45, 46, 47, 48, 49, 50, 51, 52, 53, 54, 55, 56, 57,
              58, 59, 60, 61, 62, 63, 64, 65, 66, 67, 10, 11, 12, 13, 14, 79]"

definition tv_pub :: bytes where
  "tv_pub = [49, 43, 44, 45, 46, 47, 48, 49, 50, 51, 52, 53, 54, 55, 56, 57,
             58, 59, 60, 61, 62, 63, 64, 65, 66, 67, 10, 11, 12, 13, 14, 79]"

definition tv_ephemeral :: bytes where
  "tv_ephemeral = replicate 32 3"

definition tv_fileKey :: bytes where
  "tv_fileKey = [1, 2, 3, 4, 5, 6, 7, 8, 9, 10, 11, 12, 13, 14, 15, 16]"

definition tv_stanza :: stanza where
  "tv_stanza =
     \<lparr>Type = ''X25519'',
      Args = [[CHR 0x0C, CHR 0x03, CHR 0x03, CHR 0x03, CHR 0x03, CHR 0x03, CHR 0x03, CHR 0x03,
               CHR 0x03, CHR 0x03, CHR 0x03, CHR 0x03, CHR 0x03, CHR 0x03, CHR 0x03, CHR 0x03,
               CHR 0x03, CHR 0x03, CHR 0x03, CHR 0x03, CHR 0x03, CHR 0x03, CHR 0x03, CHR 0x03,
               CHR 0x03, CHR 0x03, CHR 0x03, CHR 0x03, CHR 0x03, CHR 0x03, CHR 0x03, CHR 0x03]],
      Body = [65, 51, 53, 55, 57, 59, 61, 63, 65, 67, 69, 71, 73, 75, 77, 79,
              64, 49, 50, 51, 52, 53, 54, 55, 56, 57, 58, 59, 60, 61, 62, 63]\<rparr>"

text \<open>A stanza for another recipient, a stanza of another type and two malformed
  stanzas.\<close>

definition tv_foreign_stanza :: stanza where
  "tv_foreign_stanza = tv_stanza\<lparr>Body := replicate 32 0\<rparr>"

definition tv_scrypt_stanza :: stanza where
  "tv_scrypt_stanza = \<lparr>Type = ''scrypt'', Args = [''c2FsdA'', ''10''], Body = replicate 32 0\<rparr>"

definition tv_undecodable_stanza :: stanza where
  "tv_undecodable_stanza = \<lparr>Type = ''X25519'', Args = [''AAAA===''], Body = replicate 32 0\<rparr>"

definition tv_short_stanza :: stanza where
  "tv_short_stanza = \<lparr>Type = ''X25519'', Args = [''AAAA''], Body = replicate 32 0\<rparr>"

definition tv_identity :: Bip39Identity where
  "tv_identity = \<lparr>publicKey = tv_pub\<rparr>"

definition tv_other_identity :: Bip39Identity where
  "tv_other_identity = \<lparr>publicKey = replicate 32 1\<rparr>"

definition tv_world :: "sim_keyring world" where
  "tv_world = \<lparr>cache_env = '''', keyring = [], trace = []\<rparr>"

text \<open>Worlds whose keyring holds an entry under the name of \<open>tv_identity\<close>: the
  private key as \<open>cacheKey\<close> writes it, and a payload of 300 bytes.\<close>

definition tv_world_cached :: "string \<Rightarrow> sim_keyring world" where
  "tv_world_cached v =
     \<lparr>cache_env = v,
      keyring = [(cacheKeyName_of sim_lib tv_identity, bytes_of_string (sim_Sprintf_x tv_priv))],
      trace = []\<rparr>"

definition tv_world_oversized :: "sim_keyring world" where
  "tv_world_oversized =
     \<lparr>cache_env = '''',
      keyring = [(cacheKeyName_of sim_lib tv_identity, replicate 300 48)],
      trace = []\<rparr>"

text \<open>The spaced phrase with white space around it.\<close>

definition tv_mnemonic_padded :: string where
  "tv_mnemonic_padded = [CHR '' '', CHR 0x09] @ tv_mnemonic_spaced @ [CHR '' '', CHR 0x0A]"

section \<open>Basic facts\<close>

lemma sim_lib_fields [simp]:
  "sha512_Sum512 sim_lib = sim_Sum512"
  "curve25519_X25519 sim_lib = sim_X25519"
  "ecdh_PublicKey sim_lib = sim_PublicKey"
  "hkdf_ReadFull sim_lib = sim_hkdf_ReadFull"
  "chacha20poly1305_New sim_lib = sim_New"
  "aead_Seal sim_lib = sim_Seal"
  "aead_Open sim_lib = sim_Open"
  "b64_EncodeToString sim_lib = sim_EncodeToString"
  "b64_DecodeString sim_lib = sim_DecodeString"
  "bip39_EntropyFromMnemonic sim_lib = sim_EntropyFromMnemonic"
  "bip39_IsMnemonicValid sim_lib = sim_IsMnemonicValid"
  "strings_TrimSpace sim_lib = sim_TrimSpace"
  "time_ParseDuration sim_lib = sim_ParseDuration"
  "duration_Seconds_int sim_lib = sim_Seconds_int"
  "fmt_Sprintf_x sim_lib = sim_Sprintf_x"
  "hex_DecodeString sim_lib = sim_hex_DecodeString"
  "unix_KeyctlSearch sim_lib = sim_KeyctlSearch"
  "unix_KeyctlRead sim_lib = sim_KeyctlRead"
  "unix_AddKey sim_lib = sim_AddKey"
  "unix_KeyctlSetTimeout sim_lib = sim_KeyctlSetTimeout"
  "ecdh_NewPublicKey sim_lib = sim_NewPublicKey"
  by (simp_all add: sim_lib_def)

lemma bytesEqual_iff: "bytesEqual a b \<longleftrightarrow> a = b"
proof (cases "length a = length b")
  case True
  then show ?thesis
    by (auto simp: bytesEqual_def list_all_iff intro: nth_equalityI)
next
  case False
  then show ?thesis
    by (auto simp: bytesEqual_def)
qed

lemma length_clamp [simp]: "length (clamp x) = length x"
  by (simp add: clamp_def Let_def)

lemma copy_into_fresh:
  assumes "n \<le> length h"
  shows "copy_bytes (make_bytes n) (take n h) = take n h"
  using assms by (simp add: copy_bytes_def make_bytes_def)

lemma clamp_take_32:
  assumes "32 \<le> length h"
  shows "clamp (take 32 h) = spec_private_scalar h"
  using assms by (simp add: clamp_def spec_private_scalar_def Let_def)

lemma derive_unfolded:
  assumes "bip39_EntropyFromMnemonic L mnemonic = Inr entropy"
      and "length (sha512_Sum512 L entropy) = 64"
  shows "deriveX25519FromMnemonic L mnemonic =
           (case curve25519_X25519 L (spec_private_scalar (sha512_Sum512 L entropy)) Basepoint of
              Inl err \<Rightarrow> Inl (ErrorWrap ''X25519 scalar multiplication failed'' err)
            | Inr pubBytes \<Rightarrow> Inr (spec_private_scalar (sha512_Sum512 L entropy), pubBytes))"
proof -
  have "32 \<le> length (sha512_Sum512 L entropy)"
    using assms(2) by simp
  then have "clamp (copy_bytes (make_bytes 32) (take 32 (sha512_Sum512 L entropy)))
               = spec_private_scalar (sha512_Sum512 L entropy)"
    by (simp add: copy_into_fresh clamp_take_32)
  then show ?thesis
    using assms(1) by (simp add: deriveX25519FromMnemonic_def Let_def split: sum.split)
qed

lemma low_bits_clear: "\<not> bit ((b :: byte) AND 248) 0 \<and> \<not> bit (b AND 248) 1 \<and> \<not> bit (b AND 248) 2"
  by (simp add: bit_and_iff)

lemma high_bits_set: "\<not> bit (((b :: byte) AND 127) OR 64) 7 \<and> bit ((b AND 127) OR 64) 6"
  by (simp add: bit_and_iff bit_or_iff)

section \<open>Key derivation\<close>

text \<open>
  C2. For every phrase whose entropy is 32 bytes, \<open>deriveX25519FromMnemonic\<close> takes as
  private scalar the first 32 bytes of the SHA-512 hash of the entropy, with byte 0
  ANDed with 248 and byte 31 ANDed with 127 and then ORed with 64 (so the three low
  bits of the first byte and the top bit of the last byte are clear, and the
  second-highest bit of the last byte is set), and returns it with its X25519 product
  with the base point as public key; when that multiplication fails, so does the
  derivation.
\<close>

theorem derive_clamped_sha512_scalar:
  assumes "bip39_EntropyFromMnemonic L mnemonic = Inr entropy"
      and "length entropy = 32"
      and "length (sha512_Sum512 L entropy) = 64"
  shows "deriveX25519FromMnemonic L mnemonic =
           (case curve25519_X25519 L (spec_private_scalar (sha512_Sum512 L entropy)) Basepoint of
              Inl err \<Rightarrow> Inl (ErrorWrap ''X25519 scalar multiplication failed'' err)
            | Inr pubBytes \<Rightarrow> Inr (spec_private_scalar (sha512_Sum512 L entropy), pubBytes))
         \<and> length (spec_private_scalar (sha512_Sum512 L entropy)) = 32
         \<and> \<not> bit (spec_private_scalar (sha512_Sum512 L entropy) ! 0) 0
         \<and> \<not> bit (spec_private_scalar (sha512_Sum512 L entropy) ! 0) 1
         \<and> \<not> bit (spec_private_scalar (sha512_Sum512 L entropy) ! 0) 2
         \<and> \<not> bit (spec_private_scalar (sha512_Sum512 L entropy) ! 31) 7
         \<and> bit (spec_private_scalar (sha512_Sum512 L entropy) ! 31) 6"
proof -
  let ?h = "sha512_Sum512 L entropy"
  have result: "deriveX25519FromMnemonic L mnemonic =
           (case curve25519_X25519 L (spec_private_scalar ?h) Basepoint of
              Inl err \<Rightarrow> Inl (ErrorWrap ''X25519 scalar multiplication failed'' err)
            | Inr pubBytes \<Rightarrow> Inr (spec_private_scalar ?h, pubBytes))"
    using assms(1,3) by (rule derive_unfolded)
  have len: "length (spec_private_scalar ?h) = 32"
    using assms(3) by (simp add: spec_private_scalar_def)
  have first: "spec_private_scalar ?h ! 0 = (?h ! 0) AND 248"
    using assms(3) by (simp add: spec_private_scalar_def)
  have last: "spec_private_scalar ?h ! 31 = ((?h ! 31) AND 127) OR 64"
    using assms(3) by (simp add: spec_private_scalar_def)
  have low: "\<not> bit (spec_private_scalar ?h ! 0) 0 \<and> \<not> bit (spec_private_scalar ?h ! 0) 1
      \<and> \<not> bit (spec_private_scalar ?h ! 0) 2"
    using low_bits_clear [of "?h ! 0"] by (simp add: first)
  have high: "\<not> bit (spec_private_scalar ?h ! 31) 7 \<and> bit (spec_private_scalar ?h ! 31) 6"
    using high_bits_set [of "?h ! 31"] by (simp add: last)
  from result len low high show ?thesis by blast
qed

lemma sim_entropy_tv: "sim_EntropyFromMnemonic tv_mnemonic = Inr tv_entropy"
  by (simp add: sim_EntropyFromMnemonic_def tv_mnemonic_def tv_entropy_def bytes_of_string_def)

lemma sim_entropy_tv_spaced: "sim_EntropyFromMnemonic tv_mnemonic_spaced = Inr tv_entropy"
  by (simp add: sim_EntropyFromMnemonic_def tv_mnemonic_spaced_def tv_entropy_def
      bytes_of_string_def)

lemma sim_scalar_tv: "spec_private_scalar (sim_Sum512 tv_entropy) = tv_priv"
  by code_simp

lemma sim_public_tv: "sim_X25519 tv_priv Basepoint = Inr tv_pub"
  by code_simp

theorem derive_clamped_sha512_scalar_witness:
  "bip39_EntropyFromMnemonic sim_lib tv_mnemonic = Inr tv_entropy
   \<and> length tv_entropy = 32
   \<and> length (sha512_Sum512 sim_lib tv_entropy) = 64
   \<and> deriveX25519FromMnemonic sim_lib tv_mnemonic = Inr (tv_priv, tv_pub)"
proof -
  have e: "bip39_EntropyFromMnemonic sim_lib tv_mnemonic = Inr tv_entropy"
    by (simp add: sim_entropy_tv)
  have l: "length tv_entropy = 32"
    by (simp add: tv_entropy_def)
  have h: "length (sha512_Sum512 sim_lib tv_entropy) = 64"
    by (simp add: sim_Sum512_def)
  have "deriveX25519FromMnemonic sim_lib tv_mnemonic = Inr (tv_priv, tv_pub)"
    using derive_clamped_sha512_scalar [OF e l h, THEN conjunct1]
    by (simp add: sim_scalar_tv sim_public_tv)
  with e l h show ?thesis by simp
qed

text \<open>
  C8. The key pair is a function of the entropy alone: two derivations from phrases
  that encode the same 32-byte entropy return the same result, byte for byte (the
  derivation reads no randomness and nothing of the world).
\<close>

theorem derive_deterministic:
  assumes "bip39_EntropyFromMnemonic L m1 = Inr E"
      and "bip39_EntropyFromMnemonic L m2 = Inr E"
      and "length E = 32"
  shows "deriveX25519FromMnemonic L m1 = deriveX25519FromMnemonic L m2"
  using assms(1,2) by (simp add: deriveX25519FromMnemonic_def)

theorem derive_deterministic_witness:
  "bip39_EntropyFromMnemonic sim_lib tv_mnemonic = Inr tv_entropy
   \<and> bip39_EntropyFromMnemonic sim_lib tv_mnemonic_spaced = Inr tv_entropy
   \<and> length tv_entropy = 32
   \<and> tv_mnemonic \<noteq> tv_mnemonic_spaced
   \<and> deriveX25519FromMnemonic sim_lib tv_mnemonic
       = deriveX25519FromMnemonic sim_lib tv_mnemonic_spaced"
proof -
  have e1: "bip39_EntropyFromMnemonic sim_lib tv_mnemonic = Inr tv_entropy"
    by (simp add: sim_entropy_tv)
  have e2: "bip39_EntropyFromMnemonic sim_lib tv_mnemonic_spaced = Inr tv_entropy"
    by (simp add: sim_entropy_tv_spaced)
  have l: "length tv_entropy = 32"
    by (simp add: tv_entropy_def)
  have d: "tv_mnemonic \<noteq> tv_mnemonic_spaced"
    by (simp add: tv_mnemonic_def tv_mnemonic_spaced_def)
  from derive_deterministic [OF e1 e2 l] e1 e2 l d show ?thesis by simp
qed

section \<open>The trial of the stanzas\<close>

lemma Unwrap_stanzas_find:
  "fst (Unwrap_stanzas L privKey pub ss w) =
     (case find (decrypts L privKey pub) ss of
        None \<Rightarrow> Inl ErrIncorrectIdentity
      | Some s \<Rightarrow> unwrapX25519 L privKey pub s)"
proof (induction ss arbitrary: w)
  case Nil
  show ?case by simp
next
  case (Cons s ss)
  show ?case
  proof (cases "Type s = ''X25519''")
    case False
    then show ?thesis
      using Cons.IH [of w] by (simp add: decrypts_def)
  next
    case True
    show ?thesis
    proof (cases "unwrapX25519 L privKey pub s")
      case (Inl err)
      then show ?thesis
        using True Cons.IH [of "record_call (Call_unwrapX25519 s) w"] by (simp add: decrypts_def)
    next
      case (Inr fileKey)
      then show ?thesis
        using True by (simp add: decrypts_def)
    qed
  qed
qed

lemma decrypts_file_key:
  assumes "decrypts L privKey pub s"
  obtains fileKey where "unwrapX25519 L privKey pub s = Inr fileKey"
  using assms by (auto simp: decrypts_def split: sum.splits)

lemma Unwrap_stanzas_stops:
  assumes "i < length ss"
      and "decrypts L privKey pub (ss ! i)"
      and "\<forall>j<i. \<not> decrypts L privKey pub (ss ! j)"
  shows "Unwrap_stanzas L privKey pub ss w = Unwrap_stanzas L privKey pub (take (Suc i) ss) w"
  using assms
proof (induction ss arbitrary: i w)
  case Nil
  then show ?case by simp
next
  case (Cons s ss)
  show ?case
  proof (cases i)
    case 0
    then have "decrypts L privKey pub s"
      using Cons.prems(2) by simp
    then show ?thesis
      using 0 by (auto simp: decrypts_def split: sum.splits)
  next
    case (Suc k)
    have k: "k < length ss" "decrypts L privKey pub (ss ! k)"
      using Cons.prems(1,2) Suc by simp_all
    have before: "\<forall>j<k. \<not> decrypts L privKey pub (ss ! j)"
      using Cons.prems(3) Suc by auto
    have head: "\<not> decrypts L privKey pub s"
      using Cons.prems(3) Suc by auto
    have step: "Unwrap_stanzas L privKey pub ss w' = Unwrap_stanzas L privKey pub (take (Suc k) ss) w'"
      for w'
      using Cons.IH [OF k before] .
    show ?thesis
      using head Suc step by (auto simp: decrypts_def split: sum.splits)
  qed
qed

text \<open>
  C3. The trial of the stanzas returns the file key of the first stanza, in input
  order, that decrypts (and what follows that stanza has no part in the outcome); it
  fails with \<open>ErrIncorrectIdentity\<close> exactly when no stanza of the sequence decrypts.
  This holds for every key pair.
\<close>

theorem Unwrap_first_decrypting_stanza:
  "(\<forall>i<length ss.
      decrypts L privKey pub (ss ! i) \<and> (\<forall>j<i. \<not> decrypts L privKey pub (ss ! j)) \<longrightarrow>
        (\<exists>fileKey. unwrapX25519 L privKey pub (ss ! i) = Inr fileKey
                   \<and> fst (Unwrap_stanzas L privKey pub ss w) = Inr fileKey)
        \<and> Unwrap_stanzas L privKey pub ss w = Unwrap_stanzas L privKey pub (take (Suc i) ss) w)
   \<and> (fst (Unwrap_stanzas L privKey pub ss w) = Inl ErrIncorrectIdentity
        \<longleftrightarrow> (\<forall>s\<in>set ss. \<not> decrypts L privKey pub s))"
proof (intro conjI allI impI)
  fix i
  assume i: "i < length ss"
    and first: "decrypts L privKey pub (ss ! i) \<and> (\<forall>j<i. \<not> decrypts L privKey pub (ss ! j))"
  then have "find (decrypts L privKey pub) ss = Some (ss ! i)"
    by (auto simp: find_Some_iff)
  then have r: "fst (Unwrap_stanzas L privKey pub ss w) = unwrapX25519 L privKey pub (ss ! i)"
    by (simp add: Unwrap_stanzas_find)
  obtain fileKey where "unwrapX25519 L privKey pub (ss ! i) = Inr fileKey"
    using first by (blast elim: decrypts_file_key)
  with r show "\<exists>fileKey. unwrapX25519 L privKey pub (ss ! i) = Inr fileKey
                 \<and> fst (Unwrap_stanzas L privKey pub ss w) = Inr fileKey"
    by simp
  show "Unwrap_stanzas L privKey pub ss w = Unwrap_stanzas L privKey pub (take (Suc i) ss) w"
    using i first by (intro Unwrap_stanzas_stops) auto
next
  show "fst (Unwrap_stanzas L privKey pub ss w) = Inl ErrIncorrectIdentity
        \<longleftrightarrow> (\<forall>s\<in>set ss. \<not> decrypts L privKey pub s)"
  proof (cases "find (decrypts L privKey pub) ss")
    case None
    then have "\<forall>s\<in>set ss. \<not> decrypts L privKey pub s"
      by (auto simp: find_None_iff)
    with None show ?thesis
      by (simp add: Unwrap_stanzas_find)
  next
    case (Some s)
    then have s: "s \<in> set ss" "decrypts L privKey pub s"
      by (auto simp: find_Some_iff)
    then obtain fileKey where "unwrapX25519 L privKey pub s = Inr fileKey"
      by (blast elim: decrypts_file_key)
    with Some s show ?thesis
      by (auto simp: Unwrap_stanzas_find)
  qed
qed

lemma tv_stanza_decrypts: "decrypts sim_lib tv_priv tv_pub tv_stanza"
  by code_simp

lemma tv_foreign_stanza_fails: "\<not> decrypts sim_lib tv_priv tv_pub tv_foreign_stanza"
  by code_simp

lemma tv_scrypt_stanza_skipped: "\<not> decrypts sim_lib tv_priv tv_pub tv_scrypt_stanza"
  by code_simp

lemma tv_stanza_file_key: "unwrapX25519 sim_lib tv_priv tv_pub tv_stanza = Inr tv_fileKey"
  by code_simp

theorem Unwrap_first_decrypting_stanza_witness:
  "\<not> decrypts sim_lib tv_priv tv_pub tv_scrypt_stanza
   \<and> \<not> decrypts sim_lib tv_priv tv_pub tv_foreign_stanza
   \<and> decrypts sim_lib tv_priv tv_pub tv_stanza
   \<and> fst (Unwrap_stanzas sim_lib tv_priv tv_pub
             [tv_scrypt_stanza, tv_foreign_stanza, tv_stanza, tv_foreign_stanza] tv_world)
       = Inr tv_fileKey
   \<and> fst (Unwrap_stanzas sim_lib tv_priv tv_pub [tv_scrypt_stanza, tv_foreign_stanza] tv_world)
       = Inl ErrIncorrectIdentity"
proof -
  let ?ss = "[tv_scrypt_stanza, tv_foreign_stanza, tv_stanza, tv_foreign_stanza]"
  note facts = tv_scrypt_stanza_skipped tv_foreign_stanza_fails tv_stanza_decrypts
  have first: "decrypts sim_lib tv_priv tv_pub (?ss ! 2)
      \<and> (\<forall>j<2. \<not> decrypts sim_lib tv_priv tv_pub (?ss ! j))"
    using facts by (simp add: less_Suc_eq numeral_2_eq_2)
  have len: "2 < length ?ss"
    by simp
  have "\<exists>fileKey. unwrapX25519 sim_lib tv_priv tv_pub (?ss ! 2) = Inr fileKey
          \<and> fst (Unwrap_stanzas sim_lib tv_priv tv_pub ?ss tv_world) = Inr fileKey"
    by (rule Unwrap_first_decrypting_stanza [of ?ss sim_lib tv_priv tv_pub tv_world,
          THEN conjunct1, rule_format, OF len first, THEN conjunct1])
  then have found: "fst (Unwrap_stanzas sim_lib tv_priv tv_pub ?ss tv_world) = Inr tv_fileKey"
    by (simp add: tv_stanza_file_key del: Unwrap_stanzas.simps)
  have none: "fst (Unwrap_stanzas sim_lib tv_priv tv_pub [tv_scrypt_stanza, tv_foreign_stanza] tv_world)
      = Inl ErrIncorrectIdentity"
    using Unwrap_first_decrypting_stanza
        [of "[tv_scrypt_stanza, tv_foreign_stanza]" sim_lib tv_priv tv_pub tv_world, THEN conjunct2]
      facts
    by (simp del: Unwrap_stanzas.simps)
  from facts found none show ?thesis by simp
qed

lemma find_skip:
  assumes "\<not> P s"
  shows "find P (xs @ s # ys) = find P (xs @ ys)"
  using assms by (induction xs) simp_all

lemma malformed_fails:
  assumes "malformed_argument L s"
  shows "\<exists>err. unwrapX25519 L privKey pub s = Inl err"
  using assms by (auto simp: malformed_argument_def unwrapX25519_def split: sum.splits)

text \<open>
  C4. A stanza of type X25519 whose argument fails base64 decoding, or decodes to a
  length other than 32 bytes, makes \<open>unwrapX25519\<close> return an error, and the trial of
  the stanzas goes on as if the stanza were not there: wherever it stands in the
  sequence, the outcome is that of the sequence without it.
\<close>

theorem malformed_stanza_skipped:
  assumes "Type s = ''X25519''"
      and "malformed_argument L s"
  shows "(\<exists>err. unwrapX25519 L privKey pub s = Inl err)
         \<and> fst (Unwrap_stanzas L privKey pub (before @ s # after) w)
             = fst (Unwrap_stanzas L privKey pub (before @ after) w)"
proof -
  obtain err where err: "unwrapX25519 L privKey pub s = Inl err"
    using malformed_fails [OF assms(2)] by blast
  then have "\<not> decrypts L privKey pub s"
    by (simp add: decrypts_def)
  then have "find (decrypts L privKey pub) (before @ s # after)
               = find (decrypts L privKey pub) (before @ after)"
    by (rule find_skip)
  then have "fst (Unwrap_stanzas L privKey pub (before @ s # after) w)
               = fst (Unwrap_stanzas L privKey pub (before @ after) w)"
    by (simp only: Unwrap_stanzas_find)
  with err show ?thesis by blast
qed

lemma tv_undecodable_malformed:
  "Type tv_undecodable_stanza = ''X25519'' \<and> malformed_argument sim_lib tv_undecodable_stanza"
  by code_simp

lemma tv_short_malformed:
  "Type tv_short_stanza = ''X25519'' \<and> malformed_argument sim_lib tv_short_stanza"
  by code_simp

lemma tv_trial_without_malformed:
  "fst (Unwrap_stanzas sim_lib tv_priv tv_pub ([tv_foreign_stanza] @ [tv_stanza]) tv_world)
     = Inr tv_fileKey"
  by code_simp

theorem malformed_stanza_skipped_witness:
  "Type tv_undecodable_stanza = ''X25519''
   \<and> malformed_argument sim_lib tv_undecodable_stanza
   \<and> fst (Unwrap_stanzas sim_lib tv_priv tv_pub
             ([tv_foreign_stanza] @ tv_undecodable_stanza # [tv_stanza]) tv_world)
       = Inr tv_fileKey
   \<and> Type tv_short_stanza = ''X25519''
   \<and> malformed_argument sim_lib tv_short_stanza
   \<and> fst (Unwrap_stanzas sim_lib tv_priv tv_pub
             ([tv_foreign_stanza] @ tv_short_stanza # [tv_stanza]) tv_world)
       = Inr tv_fileKey"
proof -
  have u: "Type tv_undecodable_stanza = ''X25519''" "malformed_argument sim_lib tv_undecodable_stanza"
    using tv_undecodable_malformed by simp_all
  have s: "Type tv_short_stanza = ''X25519''" "malformed_argument sim_lib tv_short_stanza"
    using tv_short_malformed by simp_all
  have "fst (Unwrap_stanzas sim_lib tv_priv tv_pub
               ([tv_foreign_stanza] @ tv_undecodable_stanza # [tv_stanza]) tv_world)
          = fst (Unwrap_stanzas sim_lib tv_priv tv_pub ([tv_foreign_stanza] @ [tv_stanza]) tv_world)"
    by (rule malformed_stanza_skipped [OF u, THEN conjunct2])
  then have ru: "fst (Unwrap_stanzas sim_lib tv_priv tv_pub
               ([tv_foreign_stanza] @ tv_undecodable_stanza # [tv_stanza]) tv_world) = Inr tv_fileKey"
    by (simp only: tv_trial_without_malformed)
  have "fst (Unwrap_stanzas sim_lib tv_priv tv_pub
               ([tv_foreign_stanza] @ tv_short_stanza # [tv_stanza]) tv_world)
          = fst (Unwrap_stanzas sim_lib tv_priv tv_pub ([tv_foreign_stanza] @ [tv_stanza]) tv_world)"
    by (rule malformed_stanza_skipped [OF s, THEN conjunct2])
  then have rs: "fst (Unwrap_stanzas sim_lib tv_priv tv_pub
               ([tv_foreign_stanza] @ tv_short_stanza # [tv_stanza]) tv_world) = Inr tv_fileKey"
    by (simp only: tv_trial_without_malformed)
  from u s ru rs show ?thesis by blast
qed

section \<open>The identity's unwrap\<close>

lemma cacheTTL_record_call [simp]: "cacheTTL L (record_call e w) = cacheTTL L w"
  by (simp add: cacheTTL_def record_call_def)

lemma keyring_record_call [simp]: "keyring (record_call e w) = keyring w"
  by (simp add: record_call_def)

lemma cache_env_record_call [simp]: "cache_env (record_call e w) = cache_env w"
  by (simp add: record_call_def)

lemma getCachedKey_record_call [simp]:
  "getCachedKey L (record_call e w) name = getCachedKey L w name"
  unfolding getCachedKey_def cacheTTL_record_call keyring_record_call
  by (rule refl)

lemma three_calls:
  "record_call c (record_call b (record_call a w)) = w\<lparr>trace := trace w @ [a, b, c]\<rparr>"
  by (simp add: record_call_def)

lemma has_X25519_iff:
  "list_ex (\<lambda>s. Type s = ''X25519'') stanzas \<longleftrightarrow> (\<exists>s\<in>set stanzas. Type s = ''X25519'')"
  by (simp add: list_ex_iff)

text \<open>
  C9. When no stanza of the input has the type X25519, \<open>Unwrap\<close> returns
  \<open>ErrIncorrectIdentity\<close> and leaves the world as it was: the trace records no call, so
  there was no cache lookup, no prompt, no key derivation and no decryption attempt,
  and the keyring is untouched.
\<close>

theorem Unwrap_without_X25519_stanza:
  assumes "\<forall>s\<in>set stanzas. Type s \<noteq> ''X25519''"
  shows "Unwrap L si stanzas answer w = (Inr (Inl ErrIncorrectIdentity), w)"
  using assms by (simp add: Unwrap_def has_X25519_iff)

theorem Unwrap_without_X25519_stanza_witness:
  "list_all (\<lambda>s. Type s \<noteq> ''X25519'') [tv_scrypt_stanza, tv_scrypt_stanza]
   \<and> Unwrap sim_lib tv_identity [tv_scrypt_stanza, tv_scrypt_stanza] (Inr tv_mnemonic) tv_world
       = (Inr (Inl ErrIncorrectIdentity), tv_world)"
proof -
  have none: "\<forall>s\<in>set [tv_scrypt_stanza, tv_scrypt_stanza]. Type s \<noteq> ''X25519''"
    by (simp add: tv_scrypt_stanza_def)
  from Unwrap_without_X25519_stanza [OF none] none show ?thesis
    by simp
qed

text \<open>
  C5. Let the input hold a stanza of type X25519 and the cache hold no key for the
  identity, so that \<open>Unwrap\<close> asks for the phrase. For every phrase that is valid
  (once trimmed) and whose derived public key differs from the identity's public
  key, \<open>Unwrap\<close> returns the error \<open>MnemonicMismatch\<close>, which is neither
  \<open>ErrIncorrectIdentity\<close> nor the error of an invalid phrase. The world afterwards
  differs from the world before by three recorded calls only (the cache lookup, the
  prompt, the derivation): no stanza was handed to \<open>unwrapX25519\<close>, \<open>cacheKey\<close> was not
  called, and the keyring is as it was.
\<close>

theorem Unwrap_mnemonic_mismatch:
  assumes "\<exists>s\<in>set stanzas. Type s = ''X25519''"
      and "getCachedKey L w (cacheKeyName_of L si) = Inr None"
      and "bip39_IsMnemonicValid L (strings_TrimSpace L phrase)"
      and "deriveX25519FromMnemonic L (strings_TrimSpace L phrase) = Inr (derivedPriv, derivedPub)"
      and "derivedPub \<noteq> publicKey si"
  shows "Unwrap L si stanzas (Inr phrase) w =
           (Inr (Inl MnemonicMismatch),
            w\<lparr>trace := trace w @
                 [Call_getCachedKey (cacheKeyName_of L si),
                  Call_RequestValue ''Enter your BIP39 seed phrase'',
                  Call_deriveX25519FromMnemonic (strings_TrimSpace L phrase)]\<rparr>)
         \<and> MnemonicMismatch \<noteq> ErrIncorrectIdentity
         \<and> MnemonicMismatch \<noteq> InvalidMnemonic"
proof -
  have has: "list_ex (\<lambda>s. Type s = ''X25519'') stanzas"
    using assms(1) by (simp add: has_X25519_iff)
  have miss: "getCachedKey L w (''age-plugin-bip39:'' @ fmt_Sprintf_x L (publicKey si)) = Inr None"
    using assms(2) by (simp add: cacheKeyName_of_def)
  have differ: "\<not> bytesEqual derivedPub (publicKey si)"
    using assms(5) by (simp add: bytesEqual_iff)
  have "Unwrap L si stanzas (Inr phrase) w =
           (Inr (Inl MnemonicMismatch),
            record_call (Call_deriveX25519FromMnemonic (strings_TrimSpace L phrase))
              (record_call (Call_RequestValue ''Enter your BIP39 seed phrase'')
                (record_call (Call_getCachedKey (cacheKeyName_of L si)) w)))"
    using has miss assms(3,4) differ
    by (simp add: Unwrap_def Let_def MnemonicMismatch_def cacheKeyName_of_def)
  then have "Unwrap L si stanzas (Inr phrase) w =
           (Inr (Inl MnemonicMismatch),
            w\<lparr>trace := trace w @
                 [Call_getCachedKey (cacheKeyName_of L si),
                  Call_RequestValue ''Enter your BIP39 seed phrase'',
                  Call_deriveX25519FromMnemonic (strings_TrimSpace L phrase)]\<rparr>)"
    by (simp only: three_calls)
  moreover have "MnemonicMismatch \<noteq> ErrIncorrectIdentity \<and> MnemonicMismatch \<noteq> InvalidMnemonic"
    by (simp add: MnemonicMismatch_def InvalidMnemonic_def)
  ultimately show ?thesis by blast
qed

lemma tv_cache_miss: "getCachedKey sim_lib tv_world (cacheKeyName_of sim_lib tv_other_identity) = Inr None"
  by code_simp

lemma tv_phrase_valid: "bip39_IsMnemonicValid sim_lib (strings_TrimSpace sim_lib tv_mnemonic_spaced)"
  by code_simp

lemma tv_phrase_derives:
  "deriveX25519FromMnemonic sim_lib (strings_TrimSpace sim_lib tv_mnemonic_spaced) = Inr (tv_priv, tv_pub)"
  by code_simp

lemma tv_other_public_key: "tv_pub \<noteq> publicKey tv_other_identity"
  by code_simp

theorem Unwrap_mnemonic_mismatch_witness:
  "list_ex (\<lambda>s. Type s = ''X25519'') [tv_scrypt_stanza, tv_stanza]
   \<and> getCachedKey sim_lib tv_world (cacheKeyName_of sim_lib tv_other_identity) = Inr None
   \<and> bip39_IsMnemonicValid sim_lib (strings_TrimSpace sim_lib tv_mnemonic_spaced)
   \<and> deriveX25519FromMnemonic sim_lib (strings_TrimSpace sim_lib tv_mnemonic_spaced)
       = Inr (tv_priv, tv_pub)
   \<and> tv_pub \<noteq> publicKey tv_other_identity
   \<and> fst (Unwrap sim_lib tv_other_identity [tv_scrypt_stanza, tv_stanza] (Inr tv_mnemonic_spaced) tv_world)
       = Inr (Inl MnemonicMismatch)
   \<and> keyring (snd (Unwrap sim_lib tv_other_identity [tv_scrypt_stanza, tv_stanza]
                      (Inr tv_mnemonic_spaced) tv_world)) = []"
proof -
  have has: "\<exists>s\<in>set [tv_scrypt_stanza, tv_stanza]. Type s = ''X25519''"
    by (simp add: tv_stanza_def)
  note r = Unwrap_mnemonic_mismatch [OF has tv_cache_miss tv_phrase_valid tv_phrase_derives
      tv_other_public_key, THEN conjunct1]
  have "fst (Unwrap sim_lib tv_other_identity [tv_scrypt_stanza, tv_stanza] (Inr tv_mnemonic_spaced) tv_world)
          = Inr (Inl MnemonicMismatch)"
    by (simp only: r fst_conv)
  moreover have "keyring (snd (Unwrap sim_lib tv_other_identity [tv_scrypt_stanza, tv_stanza]
                      (Inr tv_mnemonic_spaced) tv_world)) = keyring tv_world"
    by (simp add: r)
  moreover have "keyring tv_world = []"
    by (simp add: tv_world_def)
  ultimately show ?thesis
    using has tv_cache_miss tv_phrase_valid tv_phrase_derives tv_other_public_key by simp
qed

section \<open>Key cache\<close>

lemma ten_minutes: "10 * Minute = 600000000000"
  by (simp add: Minute_def)

lemma cacheKey_disabled:
  assumes "cacheTTL L w = 0"
  shows "cacheKey L w name key = w"
  using assms by (simp add: cacheKey_def)

lemma getCachedKey_disabled:
  assumes "cacheTTL L w = 0"
  shows "getCachedKey L w name = Inr None"
  using assms by (simp add: getCachedKey_def)

text \<open>
  C7. The time to live of cache entries, from the value \<open>v\<close> of the configuration
  variable, by the rules in their order: unset (empty) gives 10 minutes, that is
  600000000000 nanoseconds; \<open>''0''\<close> gives zero; any other value that parses as a
  duration gives that duration; any other value that does not parse gives 10 minutes,
  and no error. When the time to live is zero, \<open>cacheKey\<close> changes nothing and
  \<open>getCachedKey\<close> returns no key, also right after a \<open>cacheKey\<close> for the same name.
\<close>

theorem cacheTTL_configuration:
  "(cache_env w = '''' \<longrightarrow> cacheTTL L w = 10 * Minute)
   \<and> (cache_env w = ''0'' \<longrightarrow> cacheTTL L w = 0)
   \<and> (\<forall>d. cache_env w \<noteq> '''' \<and> cache_env w \<noteq> ''0''
            \<and> time_ParseDuration L (cache_env w) = Inr d \<longrightarrow> cacheTTL L w = d)
   \<and> (\<forall>err. cache_env w \<noteq> '''' \<and> cache_env w \<noteq> ''0''
            \<and> time_ParseDuration L (cache_env w) = Inl err \<longrightarrow> cacheTTL L w = 10 * Minute)
   \<and> 10 * Minute = 600000000000
   \<and> (cacheTTL L w = 0 \<longrightarrow>
        cacheKey L w name key = w
        \<and> getCachedKey L w name = Inr None
        \<and> getCachedKey L (cacheKey L w name key) name = Inr None)"
proof (intro conjI allI impI)
  show "cacheTTL L w = 10 * Minute" if "cache_env w = ''''"
    using that by (simp add: cacheTTL_def)
  show "cacheTTL L w = 0" if "cache_env w = ''0''"
    using that by (simp add: cacheTTL_def)
  show "cacheTTL L w = d"
    if "cache_env w \<noteq> '''' \<and> cache_env w \<noteq> ''0'' \<and> time_ParseDuration L (cache_env w) = Inr d"
    for d
    using that by (simp add: cacheTTL_def)
  show "cacheTTL L w = 10 * Minute"
    if "cache_env w \<noteq> '''' \<and> cache_env w \<noteq> ''0'' \<and> time_ParseDuration L (cache_env w) = Inl err"
    for err
    using that by (simp add: cacheTTL_def)
  show "10 * Minute = 600000000000"
    by (rule ten_minutes)
  show "cacheKey L w name key = w" if "cacheTTL L w = 0"
    using that by (rule cacheKey_disabled)
  show "getCachedKey L w name = Inr None" if "cacheTTL L w = 0"
    using that by (rule getCachedKey_disabled)
  show "getCachedKey L (cacheKey L w name key) name = Inr None" if "cacheTTL L w = 0"
    using that by (simp add: cacheKey_disabled getCachedKey_disabled)
qed

lemma tv_env_5m:
  "cache_env (tv_world_cached ''5m'') \<noteq> '''' \<and> cache_env (tv_world_cached ''5m'') \<noteq> ''0''
   \<and> time_ParseDuration sim_lib (cache_env (tv_world_cached ''5m'')) = Inr 300000000000"
  by code_simp

lemma tv_env_bogus:
  "cache_env (tv_world_cached ''soon'') \<noteq> '''' \<and> cache_env (tv_world_cached ''soon'') \<noteq> ''0''
   \<and> time_ParseDuration sim_lib (cache_env (tv_world_cached ''soon''))
       = Inl (ErrorString ''time: invalid duration'')"
  by code_simp

lemma tv_env_0s:
  "cache_env (tv_world_cached ''0s'') \<noteq> '''' \<and> cache_env (tv_world_cached ''0s'') \<noteq> ''0''
   \<and> time_ParseDuration sim_lib (cache_env (tv_world_cached ''0s'')) = Inr 0"
  by code_simp

theorem cacheTTL_configuration_witness:
  "cacheTTL sim_lib (tv_world_cached '''') = 600000000000
   \<and> cacheTTL sim_lib (tv_world_cached ''0'') = 0
   \<and> cacheTTL sim_lib (tv_world_cached ''5m'') = 300000000000
   \<and> cacheTTL sim_lib (tv_world_cached ''soon'') = 600000000000
   \<and> cacheTTL sim_lib (tv_world_cached ''0s'') = 0
   \<and> cacheKey sim_lib (tv_world_cached ''0s'') ''name'' tv_priv = tv_world_cached ''0s''
   \<and> getCachedKey sim_lib (tv_world_cached ''0s'') (cacheKeyName_of sim_lib tv_identity) = Inr None
   \<and> getCachedKey sim_lib (tv_world_cached '''') (cacheKeyName_of sim_lib tv_identity)
       = Inr (Some tv_priv)"
proof -
  note rules = cacheTTL_configuration [where L = sim_lib]
  have unset: "cache_env (tv_world_cached '''') = ''''"
    by (simp add: tv_world_cached_def)
  have zero: "cache_env (tv_world_cached ''0'') = ''0''"
    by (simp add: tv_world_cached_def)
  have a: "cacheTTL sim_lib (tv_world_cached '''') = 600000000000"
    using rules [of "tv_world_cached ''''"] unset by simp
  have b: "cacheTTL sim_lib (tv_world_cached ''0'') = 0"
    using rules [of "tv_world_cached ''0''"] zero by simp
  have c: "cacheTTL sim_lib (tv_world_cached ''5m'') = 300000000000"
    using rules [of "tv_world_cached ''5m''"] tv_env_5m by blast
  have d: "cacheTTL sim_lib (tv_world_cached ''soon'') = 600000000000"
    using rules [of "tv_world_cached ''soon''"] tv_env_bogus by metis
  have e: "cacheTTL sim_lib (tv_world_cached ''0s'') = 0"
    using rules [of "tv_world_cached ''0s''"] tv_env_0s by blast
  have f: "cacheKey sim_lib (tv_world_cached ''0s'') ''name'' tv_priv = tv_world_cached ''0s''"
    using rules [of "tv_world_cached ''0s''" "''name''" tv_priv] e by blast
  have g: "getCachedKey sim_lib (tv_world_cached ''0s'') (cacheKeyName_of sim_lib tv_identity) = Inr None"
    using rules [of "tv_world_cached ''0s''" "cacheKeyName_of sim_lib tv_identity"] e by blast
  have h: "getCachedKey sim_lib (tv_world_cached '''') (cacheKeyName_of sim_lib tv_identity)
       = Inr (Some tv_priv)"
    by code_simp
  from a b c d e f g h show ?thesis by blast
qed

text \<open>
  What \<open>getCachedKey\<close> returns. It panics exactly when the entry is found and the read
  reports more bytes than the 256 of the buffer; in every other case the result is no
  key, or a key of 32 bytes.
\<close>

lemma getCachedKey_panics_iff:
  "getCachedKey L w name = Inl p \<longleftrightarrow>
     cacheTTL L w \<noteq> 0 \<and>
     (\<exists>key_id n written.
        unix_KeyctlSearch L (keyring w) name = Inr key_id
        \<and> unix_KeyctlRead L (keyring w) key_id 256 = Inr (n, written)
        \<and> 256 < n \<and> p = SliceBoundsOutOfRange n 256)"
  by (auto simp: getCachedKey_def make_bytes_def copy_bytes_def slice_to_def Let_def
      split: sum.splits prod.splits if_splits)

lemma getCachedKey_when_reads_fit:
  assumes "\<And>key_id n written.
             unix_KeyctlRead L (keyring w) key_id 256 = Inr (n, written) \<Longrightarrow> n \<le> 256"
  shows "getCachedKey L w name = Inr None
         \<or> (\<exists>key. getCachedKey L w name = Inr (Some key) \<and> length key = 32)"
proof (cases "getCachedKey L w name")
  case (Inl p)
  then show ?thesis
    using assms by (fastforce simp: getCachedKey_panics_iff)
next
  case (Inr r)
  then show ?thesis
    by (cases r)
      (auto simp: getCachedKey_def Let_def split: sum.splits prod.splits if_splits)
qed

text \<open>
  C6. For every name and every state of the keyring, \<open>getCachedKey\<close> is to return a key
  of 32 bytes or no key, and never to fail hard. It does so but for one state of the
  keyring: the entry exists and its payload is longer than the buffer of 256 bytes.
  \<^verbatim>\<open>KEYCTL_READ\<close> then returns the size of the payload, \<^verbatim>\<open>buf[:n]\<close> is out of range, and
  the lookup, and with it \<open>Unwrap\<close>, ends in a panic instead of "no cached key". Here
  the payload has 300 bytes.
\<close>

theorem getCachedKey_oversized_payload_panics:
  "getCachedKey sim_lib tv_world_oversized (cacheKeyName_of sim_lib tv_identity)
     = Inl (SliceBoundsOutOfRange 300 256)
   \<and> fst (Unwrap sim_lib tv_identity [tv_stanza] (Inr tv_mnemonic) tv_world_oversized)
       = Inl (SliceBoundsOutOfRange 300 256)"
  by code_simp

section \<open>Wrapping and unwrapping\<close>

lemma map2_minus_plus:
  fixes pt :: bytes
  assumes "length pt \<le> length ks"
  shows "map2 (-) (map2 (+) pt ks) ks = pt"
  using assms
proof (induction pt arbitrary: ks)
  case Nil
  show ?case by simp
next
  case (Cons p pt)
  then obtain k ks' where "ks = k # ks'"
    by (cases ks) auto
  with Cons show ?case by simp
qed

lemma sim_aead_round_trip:
  assumes "sim_New key = Inr aead"
      and "length pt \<le> 64"
  shows "sim_Open aead nonce (sim_Seal aead nonce pt ad) ad = Inr pt"
proof -
  have aead: "length aead = 32"
    using assms(1) by (auto simp: sim_New_def KeySize_def split: if_splits)
  let ?body = "map2 (+) pt (aead @ aead)"
  have body: "length ?body = length pt"
    using aead assms(2) by simp
  have tag: "length (take 16 aead) = 16"
    using aead by simp
  have "map2 (-) ?body (aead @ aead) = pt"
    using aead assms(2) by (intro map2_minus_plus) simp
  then show ?thesis
    using body tag by (simp add: sim_Open_def sim_Seal_def Let_def del: length_map length_zip)
qed

text \<open>
  C1. Let \<open>R\<close> be the public key that the derivation returns with the private key
  \<open>priv\<close>, let \<open>K\<close> be a file key of 16 to 32 bytes, and let \<open>wrapX25519\<close> with the
  fresh ephemeral key \<open>eph\<close> have produced \<open>ss\<close>. Then \<open>ss\<close> is one stanza, and
  \<open>unwrapX25519\<close> with \<open>priv\<close> and \<open>R\<close> returns exactly \<open>K\<close> from it, as does the trial of
  \<open>ss\<close>. The libraries are taken to do their part: both sides of the key agreement
  compute the same shared secret, base64 decoding gives back the encoded 32 bytes of
  the ephemeral public key, and opening what was sealed with the same AEAD and nonce
  gives back the plaintext.
\<close>

theorem wrap_unwrap_round_trip:
  assumes "deriveX25519FromMnemonic L mnemonic = Inr (priv, R)"
      and "16 \<le> length K" and "length K \<le> 32"
      and "wrapX25519 L (Inr eph) R K = Inr ss"
      and "curve25519_X25519 L priv (ecdh_PublicKey L eph) = curve25519_X25519 L eph R"
      and "b64_DecodeString L (b64_EncodeToString L (ecdh_PublicKey L eph))
             = Inr (ecdh_PublicKey L eph)"
      and "length (ecdh_PublicKey L eph) = 32"
      and "\<And>key aead. chacha20poly1305_New L key = Inr aead \<Longrightarrow>
             aead_Open L aead (make_bytes NonceSize)
               (aead_Seal L aead (make_bytes NonceSize) K []) [] = Inr K"
  shows "\<exists>s. ss = [s] \<and> Type s = ''X25519''
             \<and> unwrapX25519 L priv R s = Inr K
             \<and> fst (Unwrap_stanzas L priv R ss w) = Inr K"
proof -
  let ?ephemeralPub = "ecdh_PublicKey L eph"
  from assms(4) obtain sharedSecret wrappingKey wrappedKey where
    shared: "curve25519_X25519 L eph R = Inr sharedSecret"
    and hkdf: "hkdf_ReadFull L sharedSecret (?ephemeralPub @ R) (bytes_of_string x25519Label) KeySize
                 = Inr wrappingKey"
    and enc: "aeadEncrypt L wrappingKey K = Inr wrappedKey"
    and ss: "ss = [\<lparr>Type = ''X25519'', Args = [b64_EncodeToString L ?ephemeralPub],
                    Body = wrappedKey\<rparr>]"
    by (auto simp: wrapX25519_def Let_def split: sum.splits)
  from enc obtain aead where
    new: "chacha20poly1305_New L wrappingKey = Inr aead"
    and sealed: "wrappedKey = aead_Seal L aead (make_bytes NonceSize) K []"
    by (auto simp: aeadEncrypt_def Let_def split: sum.splits)
  let ?s = "\<lparr>Type = ''X25519'', Args = [b64_EncodeToString L ?ephemeralPub], Body = wrappedKey\<rparr>"
  have "aeadDecrypt L wrappingKey wrappedKey = Inr K"
    using new sealed assms(8) [OF new] by (simp add: aeadDecrypt_def Let_def)
  then have unwrap: "unwrapX25519 L priv R ?s = Inr K"
    using assms(5,6,7) shared hkdf by (simp add: unwrapX25519_def Let_def)
  then have "fst (Unwrap_stanzas L priv R [?s] w) = Inr K"
    by simp
  with unwrap ss show ?thesis by simp
qed

lemma tv_derive: "deriveX25519FromMnemonic sim_lib tv_mnemonic = Inr (tv_priv, tv_pub)"
  by code_simp

lemma tv_wrap: "wrapX25519 sim_lib (Inr tv_ephemeral) tv_pub tv_fileKey = Inr [tv_stanza]"
  by code_simp

lemma tv_agreement:
  "curve25519_X25519 sim_lib tv_priv (ecdh_PublicKey sim_lib tv_ephemeral)
     = curve25519_X25519 sim_lib tv_ephemeral tv_pub"
  by code_simp

lemma tv_base64:
  "b64_DecodeString sim_lib (b64_EncodeToString sim_lib (ecdh_PublicKey sim_lib tv_ephemeral))
     = Inr (ecdh_PublicKey sim_lib tv_ephemeral)"
  by code_simp

lemma tv_ephemeral_public_length: "length (ecdh_PublicKey sim_lib tv_ephemeral) = 32"
  by code_simp

lemma tv_fileKey_length: "length tv_fileKey = 16"
  by (simp add: tv_fileKey_def)

theorem wrap_unwrap_round_trip_witness:
  "deriveX25519FromMnemonic sim_lib tv_mnemonic = Inr (tv_priv, tv_pub)
   \<and> length tv_fileKey = 16
   \<and> wrapX25519 sim_lib (Inr tv_ephemeral) tv_pub tv_fileKey = Inr [tv_stanza]
   \<and> unwrapX25519 sim_lib tv_priv tv_pub tv_stanza = Inr tv_fileKey
   \<and> fst (Unwrap_stanzas sim_lib tv_priv tv_pub [tv_stanza] tv_world) = Inr tv_fileKey"
proof -
  have lower: "16 \<le> length tv_fileKey" and upper: "length tv_fileKey \<le> 32"
    by (simp_all add: tv_fileKey_length)
  have aead: "aead_Open sim_lib aead (make_bytes NonceSize)
                (aead_Seal sim_lib aead (make_bytes NonceSize) tv_fileKey []) [] = Inr tv_fileKey"
    if "chacha20poly1305_New sim_lib key = Inr aead" for key aead
    using that by (simp add: sim_aead_round_trip tv_fileKey_length)
  have "\<exists>s. [tv_stanza] = [s] \<and> Type s = ''X25519''
             \<and> unwrapX25519 sim_lib tv_priv tv_pub s = Inr tv_fileKey
             \<and> fst (Unwrap_stanzas sim_lib tv_priv tv_pub [tv_stanza] tv_world) = Inr tv_fileKey"
    by (rule wrap_unwrap_round_trip [OF tv_derive lower upper tv_wrap tv_agreement tv_base64
          tv_ephemeral_public_length aead])
  then have "unwrapX25519 sim_lib tv_priv tv_pub tv_stanza = Inr tv_fileKey
             \<and> fst (Unwrap_stanzas sim_lib tv_priv tv_pub [tv_stanza] tv_world) = Inr tv_fileKey"
    by blast
  with tv_derive tv_fileKey_length tv_wrap show ?thesis by blast
qed

section \<open>White space around the phrase\<close>

text \<open>
  C10. Both the key generation from standard input and \<open>Unwrap\<close> trim the phrase they
  are given before they validate it and derive from it. So two phrases with the same
  trimmed form (a phrase with white space around it and the trimmed phrase, which
  trimming leaves as it is) give the same outcome: the same printed identity or the
  same error for key generation, and the same result and world for \<open>Unwrap\<close>.
\<close>

theorem surrounding_whitespace_ignored:
  assumes "strings_TrimSpace L s1 = strings_TrimSpace L s2"
      and "string_of_bytes b1 = s1" and "string_of_bytes b2 = s2"
  shows "runKeygenNonInteractive L stderr_is_terminal now (Inr b1)
           = runKeygenNonInteractive L stderr_is_terminal now (Inr b2)
         \<and> Unwrap L si stanzas (Inr s1) w = Unwrap L si stanzas (Inr s2) w"
proof -
  have "runKeygenNonInteractive L stderr_is_terminal now (Inr b1)
          = runKeygenNonInteractive L stderr_is_terminal now (Inr b2)"
    unfolding runKeygenNonInteractive_def sum.case Let_def assms(2,3) assms(1)
    by (rule refl)
  moreover have "Unwrap L si stanzas (Inr s1) w = Unwrap L si stanzas (Inr s2) w"
    unfolding Unwrap_def sum.case Let_def assms(1)
    by (rule refl)
  ultimately show ?thesis by blast
qed

lemma tv_trimmed: "strings_TrimSpace sim_lib tv_mnemonic_padded = tv_mnemonic_spaced"
  by code_simp

lemma tv_trimmed_again: "strings_TrimSpace sim_lib tv_mnemonic_spaced = tv_mnemonic_spaced"
  by code_simp

lemma tv_padded_differs: "tv_mnemonic_padded \<noteq> tv_mnemonic_spaced"
  by code_simp

lemma tv_padded_bytes: "string_of_bytes (bytes_of_string tv_mnemonic_padded) = tv_mnemonic_padded"
  by code_simp

lemma tv_spaced_bytes: "string_of_bytes (bytes_of_string tv_mnemonic_spaced) = tv_mnemonic_spaced"
  by code_simp

lemma tv_keygen:
  "runKeygenNonInteractive sim_lib False ''2026-01-01T00:00:00Z'' (Inr (bytes_of_string tv_mnemonic_spaced))
     = Inr \<lparr>to_stderr = [],
            to_stdout =
              [''# created: 2026-01-01T00:00:00Z'',
               ''# public key: age1312b2c2d2e2f303132333435363738393a3b3c3d3e3f404142430a0b0c0d0e4f'',
               ''AGE-PLUGIN-bip39-312b2c2d2e2f303132333435363738393a3b3c3d3e3f404142430a0b0c0d0e4f'']\<rparr>"
  by code_simp

lemma tv_unwrap_by_phrase:
  "fst (Unwrap sim_lib tv_identity [tv_stanza] (Inr tv_mnemonic_spaced) tv_world) = Inr (Inr tv_fileKey)"
  by code_simp

theorem surrounding_whitespace_ignored_witness:
  "strings_TrimSpace sim_lib tv_mnemonic_padded = strings_TrimSpace sim_lib tv_mnemonic_spaced
   \<and> tv_mnemonic_padded \<noteq> tv_mnemonic_spaced
   \<and> runKeygenNonInteractive sim_lib False ''2026-01-01T00:00:00Z''
         (Inr (bytes_of_string tv_mnemonic_padded))
       = Inr \<lparr>to_stderr = [],
              to_stdout =
                [''# created: 2026-01-01T00:00:00Z'',
                 ''# public key: age1312b2c2d2e2f303132333435363738393a3b3c3d3e3f404142430a0b0c0d0e4f'',
                 ''AGE-PLUGIN-bip39-312b2c2d2e2f303132333435363738393a3b3c3d3e3f404142430a0b0c0d0e4f'']\<rparr>
   \<and> fst (Unwrap sim_lib tv_identity [tv_stanza] (Inr tv_mnemonic_padded) tv_world)
       = Inr (Inr tv_fileKey)"
proof -
  have same: "strings_TrimSpace sim_lib tv_mnemonic_padded = strings_TrimSpace sim_lib tv_mnemonic_spaced"
    by (simp only: tv_trimmed tv_trimmed_again)
  note r = surrounding_whitespace_ignored [OF same tv_padded_bytes tv_spaced_bytes,
      of False "''2026-01-01T00:00:00Z''" tv_identity "[tv_stanza]" tv_world]
  have keygen: "runKeygenNonInteractive sim_lib False ''2026-01-01T00:00:00Z''
         (Inr (bytes_of_string tv_mnemonic_padded))
       = Inr \<lparr>to_stderr = [],
              to_stdout =
                [''# created: 2026-01-01T00:00:00Z'',
                 ''# public key: age1312b2c2d2e2f303132333435363738393a3b3c3d3e3f404142430a0b0c0d0e4f'',
                 ''AGE-PLUGIN-bip39-312b2c2d2e2f303132333435363738393a3b3c3d3e3f404142430a0b0c0d0e4f'']\<rparr>"
    by (simp only: r [THEN conjunct1] tv_keygen)
  have unwrap: "fst (Unwrap sim_lib tv_identity [tv_stanza] (Inr tv_mnemonic_padded) tv_world)
       = Inr (Inr tv_fileKey)"
    by (simp only: r [THEN conjunct2] tv_unwrap_by_phrase)
  from same tv_padded_differs keygen unwrap show ?thesis by blast
qed

end
